theory Spec2Isabelle
  imports
    Complex_Main
    "HOL-Library.AList"
    "HOL-Library.Sublist"
    "HOL-Library.Char_ord"
    "HOL-Library.List_Lexorder"
    "HOL-Library.Product_Lexorder"
begin

section \<open>Python values and exceptions\<close>

text \<open>
  The synchronizer of \<^verbatim>\<open>sync-redis.py\<close> handles dynamically typed values: the cursor
  \<^verbatim>\<open>change_id_ro\<close> is the string \<^verbatim>\<open>"-inf"\<close> or a number, replies are lists that mix byte
  strings, \<^verbatim>\<open>None\<close> and (after conversion) integers, and dictionaries are keyed by byte
  strings but looked up with \<^verbatim>\<open>str\<close> literals. The values are therefore one datatype.

  A sorted-set score is a rational number (the store keeps a double; rounding and the
  infinite scores are left out). \<open>PScoreText s\<close> is the byte string in which the store
  renders the score \<open>s\<close> in a reply; \<^verbatim>\<open>int(x.decode())\<close> succeeds on it exactly when \<open>s\<close>
  is a whole number.
\<close>

type_synonym bytes = string
type_synonym score = rat

datatype pyval =
    PNone
  | PInt int
  | PFloat rat
  | PStr string
  | PBytes bytes
  | PScoreText score

datatype exn =
    ReplyError string
  | ValueError
  | IndexError
  | TypeError
  | OtherError string

text \<open>\<^verbatim>\<open>bool(x)\<close>: \<^verbatim>\<open>None\<close>, zero and the empty string are false.\<close>

fun truthy :: "pyval \<Rightarrow> bool" where
  "truthy PNone = False"
| "truthy (PInt i) = (i \<noteq> 0)"
| "truthy (PFloat r) = (r \<noteq> 0)"
| "truthy (PStr s) = (s \<noteq> [])"
| "truthy (PBytes b) = (b \<noteq> [])"
| "truthy (PScoreText s) = True"

text \<open>\<^verbatim>\<open>a == b\<close>: numbers compare by value, a \<^verbatim>\<open>str\<close> never equals a \<^verbatim>\<open>bytes\<close>.\<close>

fun py_eq :: "pyval \<Rightarrow> pyval \<Rightarrow> bool" where
  "py_eq (PInt i) (PFloat r) = (of_int i = r)"
| "py_eq (PFloat r) (PInt i) = (r = of_int i)"
| "py_eq a b = (a = b)"

text \<open>\<^verbatim>\<open>isinstance(x, int)\<close>.\<close>

fun isinstance_int :: "pyval \<Rightarrow> bool" where
  "isinstance_int (PInt i) = True"
| "isinstance_int v = False"

type_synonym dict = "(pyval \<times> pyval) list"

text \<open>\<^verbatim>\<open>d.get(k)\<close>: the value stored under a key equal to \<open>k\<close>, or \<^verbatim>\<open>None\<close>.\<close>

definition dict_get :: "dict \<Rightarrow> pyval \<Rightarrow> pyval" where
  "dict_get d k = (case map_of d k of None \<Rightarrow> PNone | Some v \<Rightarrow> v)"

section \<open>The two stores\<close>

text \<open>
  Both stores hold the same four keys (the class attributes of \<^verbatim>\<open>Synchronizer\<close>): a scalar
  marker, the hash of the full data, the sorted set of change ids and the hash of the
  schema version. A hash is an association list in the store's own field order, a sorted
  set an association list from member to score; an absent key is the empty structure.
  The production store also caches the scripts it has been sent.

  The stores are models of the server that the script talks to through its client
  library: each of the four keys holds a value of its expected type, and a command on
  them answers. A store that answers a script call in any other way is covered where
  \<^verbatim>\<open>eval_production_redis\<close> takes the two script commands as parameters.
\<close>

datatype key = change_id_key | full_data_key | schema_key | production_marker_key

datatype script = FullUpdateScript | PartialUpdateScript

text \<open>The SHA-1 digest of a script body, taken as collision-free.\<close>

datatype sha = Sha1 script

record redis =
  production_marker :: "bytes option"
  full_data :: "(bytes \<times> bytes) list"
  change_id :: "(bytes \<times> score) list"
  schema :: "(bytes \<times> bytes) list"
  script_cache :: "script list"


subsection \<open>Server commands\<close>

text \<open>\<^verbatim>\<open>ZRANGEBYSCORE key min +inf WITHSCORES\<close>: the entries with score at least \<open>min\<close>
  (\<open>None\<close> is \<^verbatim>\<open>-inf\<close>), ascending by score, ties by member.\<close>

definition zrangebyscore :: "score option \<Rightarrow> (bytes \<times> score) list \<Rightarrow> (bytes \<times> score) list" where
  "zrangebyscore lo z =
     sort_key (\<lambda>(m, s). (s, m))
       (filter (\<lambda>(m, s). case lo of None \<Rightarrow> True | Some l \<Rightarrow> l \<le> s) z)"

definition withscores :: "(bytes \<times> score) list \<Rightarrow> pyval list" where
  "withscores zs = concat (map (\<lambda>(m, s). [PBytes m, PScoreText s]) zs)"

definition hgetall_flat :: "(bytes \<times> bytes) list \<Rightarrow> pyval list" where
  "hgetall_flat h = concat (map (\<lambda>(f, v). [PBytes f, PBytes v]) h)"

definition hget :: "(bytes \<times> bytes) list \<Rightarrow> bytes \<Rightarrow> pyval" where
  "hget h f = (case map_of h f of None \<Rightarrow> PNone | Some v \<Rightarrow> PBytes v)"

text \<open>
  The script of \<^verbatim>\<open>do_full_update\<close>:
  \<^verbatim>\<open>
  local full_data = redis.call('hgetall', KEYS[1])
  local change_id = redis.call('zrangebyscore', KEYS[2], '-inf', '+inf', 'WITHSCORES')
  local schema = redis.call('hgetall', KEYS[3])
  return {full_data, change_id, schema}
  \<close>
\<close>

definition run_full_script :: "redis \<Rightarrow> pyval list list" where
  "run_full_script r =
     [hgetall_flat (full_data r),
      withscores (zrangebyscore None (change_id r)),
      hgetall_flat (schema r)]"

text \<open>
  The script of \<^verbatim>\<open>do_partial_update\<close>:
  \<^verbatim>\<open>
  local change_id = redis.call('zrangebyscore', KEYS[2], ARGV[1], '+inf', 'WITHSCORES')
  local partial_full_data = {}
  for i = 1, #change_id, 2 do
    table.insert(partial_full_data, change_id[i])
    table.insert(partial_full_data, redis.call('hget', KEYS[1], change_id[i]))
  end
  return {partial_full_data, change_id}
  \<close>
  A field that is not in the hash comes back as \<^verbatim>\<open>None\<close>.
\<close>

definition run_partial_script :: "redis \<Rightarrow> score option \<Rightarrow> pyval list list" where
  "run_partial_script r lo =
     (let change = zrangebyscore lo (change_id r)
      in [concat (map (\<lambda>(m, s). [PBytes m, hget (full_data r) m]) change),
          withscores change])"

text \<open>The range bound as the server reads it from \<^verbatim>\<open>ARGV[1]\<close>.\<close>

fun parse_min :: "pyval \<Rightarrow> exn + score option" where
  "parse_min (PInt i) = Inr (Some (of_int i))"
| "parse_min (PFloat r) = Inr (Some r)"
| "parse_min (PStr s) =
     (if s = ''-inf'' then Inr None else Inl (ReplyError ''ERR min or max is not a float''))"
| "parse_min v = Inl (ReplyError ''ERR min or max is not a float'')"

fun run_script :: "script \<Rightarrow> key list \<Rightarrow> pyval list \<Rightarrow> redis \<Rightarrow> exn + pyval list list" where
  "run_script FullUpdateScript keys args r =
     (if keys = [full_data_key, change_id_key, schema_key] then Inr (run_full_script r)
      else Inl (ReplyError ''ERR Error running script''))"
| "run_script PartialUpdateScript keys args r =
     (if keys = [full_data_key, change_id_key] then
        (case args of
           [a] \<Rightarrow> (case parse_min a of Inl e \<Rightarrow> Inl e | Inr lo \<Rightarrow> Inr (run_partial_script r lo))
         | _ \<Rightarrow> Inl (ReplyError ''ERR Error running script''))
      else Inl (ReplyError ''ERR Error running script''))"

text \<open>\<^verbatim>\<open>EVALSHA\<close> runs a cached script and fails with \<^verbatim>\<open>NOSCRIPT\<close> on an unknown digest;
  \<^verbatim>\<open>EVAL\<close> runs the body and caches it.\<close>

fun redis_evalsha ::
  "sha \<Rightarrow> key list \<Rightarrow> pyval list \<Rightarrow> redis \<Rightarrow> (exn + pyval list list) \<times> redis" where
  "redis_evalsha (Sha1 s) keys args r =
     (if s \<in> set (script_cache r) then (run_script s keys args r, r)
      else (Inl (ReplyError ''NOSCRIPT No matching script. Please use EVAL.''), r))"

definition redis_eval ::
  "script \<Rightarrow> key list \<Rightarrow> pyval list \<Rightarrow> redis \<Rightarrow> (exn + pyval list list) \<times> redis" where
  "redis_eval s keys args r =
     (run_script s keys args r, r\<lparr>script_cache := s # script_cache r\<rparr>)"

subsection \<open>Client commands\<close>

text \<open>The client turns a score into an \<^verbatim>\<open>int\<close> when its text parses as one, into a
  \<^verbatim>\<open>float\<close> otherwise.\<close>

definition is_integral :: "score \<Rightarrow> bool" where
  "is_integral s \<longleftrightarrow> of_int \<lfloor>s\<rfloor> = s"

definition int_or_float :: "score \<Rightarrow> pyval" where
  "int_or_float s = (if is_integral s then PInt \<lfloor>s\<rfloor> else PFloat s)"

definition redis_get :: "redis \<Rightarrow> pyval" where
  "redis_get r = (case production_marker r of None \<Rightarrow> PNone | Some v \<Rightarrow> PBytes v)"

text \<open>\<^verbatim>\<open>zrevrangebyscore(key, withscores=True, count=1, offset=0)\<close>: the entry with the
  highest score, if any.\<close>

definition zrevrangebyscore :: "(bytes \<times> score) list \<Rightarrow> (pyval \<times> pyval) list" where
  "zrevrangebyscore z =
     (case rev (zrangebyscore None z) of
        [] \<Rightarrow> []
      | (m, s) # _ \<Rightarrow> [(PBytes m, int_or_float s)])"

definition zscore :: "(bytes \<times> score) list \<Rightarrow> bytes \<Rightarrow> pyval" where
  "zscore z m = (case map_of z m of None \<Rightarrow> PNone | Some s \<Rightarrow> int_or_float s)"

text \<open>\<^verbatim>\<open>hgetall(key)\<close>: the hash as a dictionary from \<^verbatim>\<open>bytes\<close> to \<^verbatim>\<open>bytes\<close> (the connection
  has no encoding; \<^verbatim>\<open>fetch_ro_redis_data\<close> decodes the keys itself).\<close>

definition hgetall :: "(bytes \<times> bytes) list \<Rightarrow> dict" where
  "hgetall h = map (\<lambda>(f, v). (PBytes f, PBytes v)) h"

subsection \<open>Write commands of a transaction\<close>

text \<open>
  The commands that the two updates queue, with the argument lists they are given:
  \<^verbatim>\<open>hmset(key, field, value, ...)\<close>, \<^verbatim>\<open>hdel(key, field, ...)\<close> and
  \<^verbatim>\<open>zadd(key, score, member, ...)\<close>. Fields, values and members are byte strings and
  scores are \<^verbatim>\<open>int\<close>s, as the replies and \<^verbatim>\<open>convert_change_id_list\<close> produce them; any
  other argument list is rejected (\<open>None\<close>). \<^verbatim>\<open>HSET\<close> and \<^verbatim>\<open>ZADD\<close> overwrite an existing
  field or member in place and append a new one; \<^verbatim>\<open>HDEL\<close> of a missing field does nothing.
\<close>

datatype wcmd =
    Delete key
  | Hmset key "pyval list"
  | Hdel key "pyval list"
  | Zadd key "pyval list"

fun hmset :: "pyval list \<Rightarrow> (bytes \<times> bytes) list \<Rightarrow> (bytes \<times> bytes) list option" where
  "hmset [] h = Some h"
| "hmset (PBytes f # PBytes v # rest) h = hmset rest (AList.update f v h)"
| "hmset xs h = None"

fun hdel :: "pyval list \<Rightarrow> (bytes \<times> bytes) list \<Rightarrow> (bytes \<times> bytes) list option" where
  "hdel [] h = Some h"
| "hdel (PBytes f # rest) h = hdel rest (AList.delete f h)"
| "hdel xs h = None"

fun zadd :: "pyval list \<Rightarrow> (bytes \<times> score) list \<Rightarrow> (bytes \<times> score) list option" where
  "zadd [] z = Some z"
| "zadd (PInt s # PBytes m # rest) z = zadd rest (AList.update m (of_int s) z)"
| "zadd xs z = None"

fun exec_cmd :: "wcmd \<Rightarrow> redis \<Rightarrow> redis option" where
  "exec_cmd (Delete full_data_key) r = Some (r\<lparr>full_data := []\<rparr>)"
| "exec_cmd (Delete change_id_key) r = Some (r\<lparr>change_id := []\<rparr>)"
| "exec_cmd (Delete schema_key) r = Some (r\<lparr>schema := []\<rparr>)"
| "exec_cmd (Delete production_marker_key) r = Some (r\<lparr>production_marker := None\<rparr>)"
| "exec_cmd (Hmset full_data_key xs) r =
     (case hmset xs (full_data r) of None \<Rightarrow> None | Some h \<Rightarrow> Some (r\<lparr>full_data := h\<rparr>))"
| "exec_cmd (Hmset schema_key xs) r =
     (case hmset xs (schema r) of None \<Rightarrow> None | Some h \<Rightarrow> Some (r\<lparr>schema := h\<rparr>))"
| "exec_cmd (Hdel full_data_key xs) r =
     (case hdel xs (full_data r) of None \<Rightarrow> None | Some h \<Rightarrow> Some (r\<lparr>full_data := h\<rparr>))"
| "exec_cmd (Hdel schema_key xs) r =
     (case hdel xs (schema r) of None \<Rightarrow> None | Some h \<Rightarrow> Some (r\<lparr>schema := h\<rparr>))"
| "exec_cmd (Zadd change_id_key xs) r =
     (case zadd xs (change_id r) of None \<Rightarrow> None | Some z \<Rightarrow> Some (r\<lparr>change_id := z\<rparr>))"
| "exec_cmd c r = None"

fun exec_all :: "wcmd list \<Rightarrow> redis \<Rightarrow> redis option" where
  "exec_all [] r = Some r"
| "exec_all (c # cs) r = (case exec_cmd c r of None \<Rightarrow> None | Some r' \<Rightarrow> exec_all cs r')"

section \<open>The synchronizer\<close>

text \<open>
  Every command sent to a store is recorded, in order, with the connection it went to.
  A transaction is one event: its queued commands are applied together. The calls to
  \<^verbatim>\<open>logging\<close> are left out.
\<close>

datatype ('h, 'b) scall =
    Evalsha 'h "key list" "pyval list"
  | Eval 'b "key list" "pyval list"

datatype rcmd =
    Get key
  | Zrevrangebyscore key
  | Zscore key bytes
  | Hgetall key
  | Script "(sha, script) scall"
  | MultiExec "wcmd list"

datatype event = Production rcmd | ReadOnly rcmd

text \<open>The object state: the two connections, the attributes that the methods assign
  (\<^verbatim>\<open>None\<close> and the empty dictionary before that), and the commands sent so far.\<close>

record synchronizer =
  production_redis :: redis
  ro_redis :: redis
  change_id_ro :: pyval
  lowest_change_id_ro :: pyval
  schema_ro :: dict
  lowest_change_id_prod :: pyval
  schema_production :: dict
  trace :: "event list"

definition Synchronizer :: "redis \<Rightarrow> redis \<Rightarrow> synchronizer" where
  "Synchronizer p r =
     \<lparr>production_redis = p, ro_redis = r, change_id_ro = PNone, lowest_change_id_ro = PNone,
      schema_ro = [], lowest_change_id_prod = PNone, schema_production = [], trace = []\<rparr>"

subsection \<open>\<^verbatim>\<open>eval_production_redis\<close>\<close>

text \<open>
  \<^verbatim>\<open>
  hash = hashlib.sha1(script.encode()).hexdigest()
  try:
      return await self.production_redis.evalsha(hash, keys, args)
  except aioredis.errors.ReplyError as e:
      if str(e).startswith("NOSCRIPT"):
          return await self.production_redis.eval(script, keys, args)
      else:
          raise e
  \<close>
  The digest function and the two commands of the connection are parameters, so that the
  store may answer anything; a command returns its reply or the exception it raises,
  and the new state of the store. The third component lists the commands sent.
\<close>

definition eval_production_redis ::
  "('b \<Rightarrow> 'h) \<Rightarrow>
   ('h \<Rightarrow> key list \<Rightarrow> pyval list \<Rightarrow> 's \<Rightarrow> (exn + 'r) \<times> 's) \<Rightarrow>
   ('b \<Rightarrow> key list \<Rightarrow> pyval list \<Rightarrow> 's \<Rightarrow> (exn + 'r) \<times> 's) \<Rightarrow>
   'b \<Rightarrow> key list \<Rightarrow> pyval list \<Rightarrow> 's \<Rightarrow> (exn + 'r) \<times> 's \<times> ('h, 'b) scall list" where
  "eval_production_redis sha1 evalsha eval script keys args s =
     (let hash = sha1 script in
      case evalsha hash keys args s of
        (Inr res, s1) \<Rightarrow> (Inr res, s1, [Evalsha hash keys args])
      | (Inl e, s1) \<Rightarrow>
          (case e of
             ReplyError msg \<Rightarrow>
               if prefix ''NOSCRIPT'' msg then
                 (case eval script keys args s1 of
                    (res, s2) \<Rightarrow> (res, s2, [Evalsha hash keys args, Eval script keys args]))
               else (Inl e, s1, [Evalsha hash keys args])
           | _ \<Rightarrow> (Inl e, s1, [Evalsha hash keys args])))"

text \<open>The method on the production connection of the object.\<close>

definition eval_prod ::
  "script \<Rightarrow> key list \<Rightarrow> pyval list \<Rightarrow> synchronizer \<Rightarrow> (exn + pyval list list) \<times> synchronizer" where
  "eval_prod script keys args S =
     (case eval_production_redis Sha1 redis_evalsha redis_eval script keys args
             (production_redis S) of
        (res, p, calls) \<Rightarrow>
          (res, S\<lparr>production_redis := p, trace := trace S @ map (Production \<circ> Script) calls\<rparr>))"

subsection \<open>\<^verbatim>\<open>convert_change_id_list\<close>\<close>

text \<open>\<^verbatim>\<open>int(x.decode())\<close>. A byte string in score position is the rendering of a score;
  any other byte string is taken not to parse.\<close>

fun py_int_decode :: "pyval \<Rightarrow> exn + int" where
  "py_int_decode (PScoreText s) = (if is_integral s then Inr \<lfloor>s\<rfloor> else Inl ValueError)"
| "py_int_decode (PBytes b) = Inl ValueError"
| "py_int_decode v = Inl (OtherError ''AttributeError'')"

text \<open>
  \<^verbatim>\<open>
  for i in range(0, len(change_id), 2):
      score = int(change_id[i + 1].decode())
      change_id[i + 1] = change_id[i]
      change_id[i] = score
  \<close>
  The list is rewritten in place; here the rewritten list is returned. A list of odd
  length fails at its last index.
\<close>

fun convert_change_id_list :: "pyval list \<Rightarrow> exn + pyval list" where
  "convert_change_id_list [] = Inr []"
| "convert_change_id_list [m] = Inl IndexError"
| "convert_change_id_list (m # sc # rest) =
     (case py_int_decode sc of
        Inl e \<Rightarrow> Inl e
      | Inr score \<Rightarrow>
          (case convert_change_id_list rest of
             Inl e \<Rightarrow> Inl e
           | Inr rest' \<Rightarrow> Inr (PInt score # m # rest')))"

subsection \<open>\<^verbatim>\<open>fetch_ro_redis_data\<close>\<close>

definition fetch_ro_redis_data :: "synchronizer \<Rightarrow> synchronizer" where
  "fetch_ro_redis_data S =
     (let top = zrevrangebyscore (change_id (ro_redis S));
          S1 = S\<lparr>trace := trace S @ [ReadOnly (Zrevrangebyscore change_id_key)]\<rparr>;
          S2 = (case top of
                  [] \<Rightarrow> S1\<lparr>change_id_ro := PStr ''-inf'', lowest_change_id_ro := PNone\<rparr>
                | e # _ \<Rightarrow>
                    S1\<lparr>change_id_ro := snd e,
                       lowest_change_id_ro :=
                         zscore (change_id (ro_redis S)) ''_config:lowest_change_id'',
                       trace := trace S1 @
                         [ReadOnly (Zscore change_id_key ''_config:lowest_change_id'')]\<rparr>)
      in S2\<lparr>schema_ro := hgetall (schema (ro_redis S)),
            trace := trace S2 @ [ReadOnly (Hgetall schema_key)]\<rparr>)"

subsection \<open>\<^verbatim>\<open>check_full_update\<close>\<close>

definition check_full_update :: "synchronizer \<Rightarrow> bool" where
  "check_full_update S =
     (if lowest_change_id_ro S = PNone then True
      else if lowest_change_id_prod S = PNone then True
      else if \<not> py_eq (lowest_change_id_ro S) (lowest_change_id_prod S) then True
      else if \<not> py_eq (dict_get (schema_ro S) (PStr ''db''))
                      (dict_get (schema_production S) (PStr ''db''))
            \<or> \<not> py_eq (dict_get (schema_ro S) (PStr ''config''))
                       (dict_get (schema_production S) (PStr ''config''))
            \<or> \<not> py_eq (dict_get (schema_ro S) (PStr ''migration''))
                       (dict_get (schema_production S) (PStr ''migration''))
      then True
      else False)"

subsection \<open>The transaction on the replica\<close>

text \<open>\<^verbatim>\<open>transaction.execute()\<close>: the queued commands are applied together. A command
  whose arguments the client rejects raises before anything is sent.\<close>

definition execute :: "wcmd list \<Rightarrow> synchronizer \<Rightarrow> exn option \<times> synchronizer" where
  "execute tx S =
     (case exec_all tx (ro_redis S) of
        None \<Rightarrow> (Some TypeError, S)
      | Some r \<Rightarrow> (None, S\<lparr>ro_redis := r, trace := trace S @ [ReadOnly (MultiExec tx)]\<rparr>))"

subsection \<open>\<^verbatim>\<open>do_full_update\<close>\<close>

definition do_full_update :: "synchronizer \<Rightarrow> exn option \<times> synchronizer" where
  "do_full_update S =
     (case eval_prod FullUpdateScript [full_data_key, change_id_key, schema_key] [] S of
        (Inl e, S1) \<Rightarrow> (Some e, S1)
      | (Inr reply, S1) \<Rightarrow>
          (case reply of
             [fd, cid, sch] \<Rightarrow>
               (case convert_change_id_list cid of
                  Inl e \<Rightarrow> (Some e, S1)
                | Inr cid' \<Rightarrow>
                    execute
                      ([Delete full_data_key, Delete change_id_key, Delete schema_key]
                       @ (if fd \<noteq> [] then [Hmset full_data_key fd] else [])
                       @ (if cid' \<noteq> [] then [Zadd change_id_key cid'] else [])
                       @ (if sch \<noteq> [] then [Hmset schema_key sch] else []))
                      S1)
           | _ \<Rightarrow> (Some ValueError, S1)))"

subsection \<open>\<^verbatim>\<open>do_partial_update\<close>\<close>

text \<open>
  \<^verbatim>\<open>
  change_id_ro = (self.change_id_ro + 1 if isinstance(self.change_id_ro, int)
                  else self.change_id_ro)
  \<close>
\<close>

definition fetch_floor :: "pyval \<Rightarrow> pyval" where
  "fetch_floor c = (if isinstance_int c then (case c of PInt i \<Rightarrow> PInt (i + 1) | _ \<Rightarrow> c) else c)"

text \<open>
  \<^verbatim>\<open>
  for i in range(0, len(partial_full_data), 2):
      element_id = partial_full_data[i]
      element = partial_full_data[i + 1]
      if element:
          changed_elements.append(element_id)
          changed_elements.append(element)
      else:
          deleted_elements.append(element_id)
  \<close>
\<close>

fun split_partial_full_data :: "pyval list \<Rightarrow> exn + pyval list \<times> pyval list" where
  "split_partial_full_data [] = Inr ([], [])"
| "split_partial_full_data [element_id] = Inl IndexError"
| "split_partial_full_data (element_id # element # rest) =
     (case split_partial_full_data rest of
        Inl e \<Rightarrow> Inl e
      | Inr (changed_elements, deleted_elements) \<Rightarrow>
          if truthy element then Inr (element_id # element # changed_elements, deleted_elements)
          else Inr (changed_elements, element_id # deleted_elements))"

definition do_partial_update :: "synchronizer \<Rightarrow> exn option \<times> synchronizer" where
  "do_partial_update S =
     (case eval_prod PartialUpdateScript [full_data_key, change_id_key]
             [fetch_floor (change_id_ro S)] S of
        (Inl e, S1) \<Rightarrow> (Some e, S1)
      | (Inr reply, S1) \<Rightarrow>
          (case reply of
             [partial_full_data, cid] \<Rightarrow>
               (case convert_change_id_list cid of
                  Inl e \<Rightarrow> (Some e, S1)
                | Inr cid' \<Rightarrow>
                    (case split_partial_full_data partial_full_data of
                       Inl e \<Rightarrow> (Some e, S1)
                     | Inr (changed_elements, deleted_elements) \<Rightarrow>
                         if partial_full_data \<noteq> [] \<or> cid' \<noteq> [] then
                           execute
                             ((if changed_elements \<noteq> []
                               then [Hmset full_data_key changed_elements] else [])
                              @ (if deleted_elements \<noteq> []
                                 then [Hdel full_data_key deleted_elements] else [])
                              @ (if cid' \<noteq> [] then [Zadd change_id_key cid'] else []))
                             S1
                         else (None, S1)))
           | _ \<Rightarrow> (Some ValueError, S1)))"

subsection \<open>\<^verbatim>\<open>sync_redis\<close>\<close>

text \<open>Step 2 of \<^verbatim>\<open>sync_redis\<close>: the lowest change id and the schema version of the
  production store, each read by a command of its own.\<close>

definition fetch_production_data :: "synchronizer \<Rightarrow> synchronizer" where
  "fetch_production_data S =
     S\<lparr>lowest_change_id_prod :=
         zscore (change_id (production_redis S)) ''_config:lowest_change_id'',
       schema_production := hgetall (schema (production_redis S)),
       trace := trace S @
         [Production (Zscore change_id_key ''_config:lowest_change_id''), Production (Hgetall schema_key)]\<rparr>"

text \<open>The run. It returns the exception that escapes it, if any, and the final state.
  When the marker is missing the method returns at once.\<close>

definition sync_redis :: "synchronizer \<Rightarrow> exn option \<times> synchronizer" where
  "sync_redis S =
     (let marker = redis_get (production_redis S);
          S0 = S\<lparr>trace := trace S @ [Production (Get production_marker_key)]\<rparr>
      in if \<not> truthy marker then (None, S0)
         else
           (let S1 = fetch_ro_redis_data S0;
                S2 = fetch_production_data S1
            in case (if check_full_update S2 then do_full_update S2 else do_partial_update S2) of
                 (Some e, S3) \<Rightarrow> (Some e, S3)
               | (None, S3) \<Rightarrow> (None, fetch_ro_redis_data S3)))"

section \<open>Example stores\<close>

text \<open>A production store with two elements and a tombstone (\<open>c\<close> is in the change log
  but not in the full data), and replicas in several states.\<close>

definition prod_store :: redis where
  "prod_store =
     \<lparr>production_marker = Some ''1'',
      full_data = [(''a'', ''x''), (''b'', ''y'')],
      change_id = [(''_config:lowest_change_id'', 1), (''a'', 2), (''b'', 3), (''c'', 4)],
      schema = [(''db'', ''2''), (''config'', ''1''), (''migration'', ''1'')],
      script_cache = []\<rparr>"

definition ro_behind :: redis where
  "ro_behind =
     \<lparr>production_marker = None,
      full_data = [(''a'', ''x''), (''c'', ''z'')],
      change_id = [(''_config:lowest_change_id'', 1), (''a'', 2)],
      schema = [(''db'', ''2''), (''config'', ''1''), (''migration'', ''1'')],
      script_cache = []\<rparr>"


definition ro_old_schema :: redis where
  "ro_old_schema =
     ro_behind\<lparr>schema := [(''db'', ''1''), (''config'', ''1''), (''migration'', ''1'')]\<rparr>"

definition ro_empty :: redis where
  "ro_empty =
     \<lparr>production_marker = None, full_data = [], change_id = [], schema = [], script_cache = []\<rparr>"

section \<open>Predicates on the recorded commands\<close>

fun on_replica :: "event \<Rightarrow> bool" where
  "on_replica (ReadOnly c) = True"
| "on_replica (Production c) = False"


text \<open>All values that a command carries to a store.\<close>

fun cmd_args :: "wcmd \<Rightarrow> pyval list" where
  "cmd_args (Delete k) = []"
| "cmd_args (Hmset k xs) = xs"
| "cmd_args (Hdel k xs) = xs"
| "cmd_args (Zadd k xs) = xs"

fun rcmd_args :: "rcmd \<Rightarrow> pyval list" where
  "rcmd_args (Script (Evalsha h ks as)) = as"
| "rcmd_args (Script (Eval b ks as)) = as"
| "rcmd_args (MultiExec tx) = concat (map cmd_args tx)"
| "rcmd_args c = []"

fun event_args :: "event \<Rightarrow> pyval list" where
  "event_args (Production c) = rcmd_args c"
| "event_args (ReadOnly c) = rcmd_args c"


section \<open>Basic facts\<close>

lemma zrangebyscore_None_Nil [simp]: "zrangebyscore None z = [] \<longleftrightarrow> z = []"
proof -
  have "length (zrangebyscore None z) = length z"
    by (simp add: zrangebyscore_def)
  then show ?thesis by (metis length_0_conv)
qed

lemma zrevrangebyscore_Nil [simp]: "zrevrangebyscore z = [] \<longleftrightarrow> z = []"
proof -
  have "zrevrangebyscore z = [] \<longleftrightarrow> rev (zrangebyscore None z) = []"
    unfolding zrevrangebyscore_def
    by (cases "rev (zrangebyscore None z)") (simp_all del: rev_is_Nil_conv rev_eq_Cons_iff split: prod.splits)
  then show ?thesis by simp
qed

lemma trace_fetch_ro:
  "\<exists>t. trace (fetch_ro_redis_data S) = trace S @ ReadOnly (Zrevrangebyscore change_id_key) # t
       \<and> (\<forall>e\<in>set t. on_replica e)"
  by (simp add: fetch_ro_redis_data_def Let_def split: list.splits)

lemma fetch_ro_frame [simp]:
  "ro_redis (fetch_ro_redis_data S) = ro_redis S"
  "production_redis (fetch_ro_redis_data S) = production_redis S"
  "lowest_change_id_prod (fetch_ro_redis_data S) = lowest_change_id_prod S"
  "schema_production (fetch_ro_redis_data S) = schema_production S"
  by (simp_all add: fetch_ro_redis_data_def Let_def split: list.splits)

lemma fetch_production_frame [simp]:
  "ro_redis (fetch_production_data S) = ro_redis S"
  "production_redis (fetch_production_data S) = production_redis S"
  "change_id_ro (fetch_production_data S) = change_id_ro S"
  "lowest_change_id_ro (fetch_production_data S) = lowest_change_id_ro S"
  "schema_ro (fetch_production_data S) = schema_ro S"
  "trace (fetch_production_data S) = trace S @
     [Production (Zscore change_id_key ''_config:lowest_change_id''), Production (Hgetall schema_key)]"
  by (simp_all add: fetch_production_data_def)

lemma trace_eval_prod:
  "\<exists>t. trace (snd (eval_prod sc ks as S)) = trace S @ Production (Script (Evalsha (Sha1 sc) ks as)) # t"
  by (auto simp: eval_prod_def eval_production_redis_def Let_def split: prod.splits sum.splits exn.splits)

lemma trace_execute:
  "\<exists>t. trace (snd (execute tx S)) = trace S @ t"
  by (simp add: execute_def split: option.splits)

lemma trace_do_full_update:
  "\<exists>t. trace (snd (do_full_update S)) =
     trace S @ Production (Script (Evalsha (Sha1 FullUpdateScript) [full_data_key, change_id_key, schema_key] [])) # t"
proof -
  obtain r S1 where e: "eval_prod FullUpdateScript [full_data_key, change_id_key, schema_key] [] S = (r, S1)"
    by (cases "eval_prod FullUpdateScript [full_data_key, change_id_key, schema_key] [] S")
  from trace_eval_prod [of FullUpdateScript "[full_data_key, change_id_key, schema_key]" "[]" S] e
  obtain t where t: "trace S1 = trace S @ Production (Script (Evalsha (Sha1 FullUpdateScript) [full_data_key, change_id_key, schema_key] [])) # t"
    by auto
  have "\<exists>u. trace (snd (do_full_update S)) = trace S1 @ u"
    using e trace_execute [of _ S1]
    by (auto simp: do_full_update_def split: sum.splits list.splits)
  with t show ?thesis by auto
qed

lemma trace_do_partial_update:
  "\<exists>t. trace (snd (do_partial_update S)) =
     trace S @ Production (Script (Evalsha (Sha1 PartialUpdateScript) [full_data_key, change_id_key]
        [fetch_floor (change_id_ro S)])) # t"
proof -
  let ?ks = "[full_data_key, change_id_key]" and ?as = "[fetch_floor (change_id_ro S)]"
  obtain r S1 where e: "eval_prod PartialUpdateScript ?ks ?as S = (r, S1)"
    by (cases "eval_prod PartialUpdateScript ?ks ?as S")
  from trace_eval_prod [of PartialUpdateScript ?ks ?as S] e
  obtain t where t: "trace S1 = trace S @ Production (Script (Evalsha (Sha1 PartialUpdateScript) ?ks ?as)) # t"
    by auto
  have "\<exists>u. trace (snd (do_partial_update S)) = trace S1 @ u"
    using e trace_execute [of _ S1]
    by (auto simp: do_partial_update_def split: sum.splits list.splits prod.splits)
  with t show ?thesis by auto
qed

lemma sync_redis_unmarked:
  "\<not> truthy (redis_get (production_redis S)) \<Longrightarrow>
   sync_redis S = (None, S\<lparr>trace := trace S @ [Production (Get production_marker_key)]\<rparr>)"
  by (simp add: sync_redis_def Let_def)

lemma sync_redis_marked:
  assumes "truthy (redis_get (production_redis S))"
  shows "\<exists>rest. trace (snd (sync_redis S)) =
       trace S @ [Production (Get production_marker_key),
                  ReadOnly (Zrevrangebyscore change_id_key)] @ rest"
proof -
  let ?S0 = "S\<lparr>trace := trace S @ [Production (Get production_marker_key)]\<rparr>"
  let ?S2 = "fetch_production_data (fetch_ro_redis_data ?S0)"
  let ?R = "if check_full_update ?S2 then do_full_update ?S2 else do_partial_update ?S2"
  obtain t where t: "trace (fetch_ro_redis_data ?S0) =
      trace ?S0 @ ReadOnly (Zrevrangebyscore change_id_key) # t"
    using trace_fetch_ro [of ?S0] by blast
  have "\<exists>u. trace (snd ?R) = trace ?S2 @ u"
    using trace_do_full_update [of ?S2] trace_do_partial_update [of ?S2] by auto
  then obtain u where u: "trace (snd ?R) = trace ?S2 @ u" by blast
  obtain w where w: "trace (fetch_ro_redis_data (snd ?R)) = trace (snd ?R) @ w"
    using trace_fetch_ro [of "snd ?R"] by auto
  have "\<exists>x. trace (snd (sync_redis S)) = trace (snd ?R) @ x"
    using assms w by (cases ?R) (auto simp: sync_redis_def Let_def split: option.splits)
  then show ?thesis using u t by auto
qed

lemma truthy_marker:
  "truthy (redis_get r) \<longleftrightarrow> (\<exists>v. production_marker r = Some v \<and> v \<noteq> [])"
  by (auto simp: redis_get_def split: option.splits)

section \<open>Closed forms of the store operations and of the two updates\<close>

lemmas run_defs = Synchronizer_def sync_redis_def fetch_ro_redis_data_def fetch_production_data_def
  check_full_update_def do_partial_update_def do_full_update_def eval_prod_def eval_production_redis_def
  redis_eval_def run_partial_script_def run_full_script_def execute_def fetch_floor_def
  zrevrangebyscore_def zrangebyscore_def zscore_def int_or_float_def hgetall_def
  hgetall_flat_def hget_def withscores_def dict_get_def redis_get_def Let_def

lemma is_integral_of_int [simp]: "is_integral (of_int n)"
  by (simp add: is_integral_def)

lemma is_integral_numeral [simp]: "is_integral (numeral n)" "is_integral 1" "is_integral 0"
  by (simp_all add: is_integral_def)

lemma not_integral_three_halves [simp]: "\<not> is_integral (3 / 2)"
proof -
  have "\<lfloor>3 / 2 :: rat\<rfloor> = 1"
    by (rule floor_unique) simp_all
  then show ?thesis
    unfolding is_integral_def by simp
qed

lemma dict_get_hgetall_str [simp]: "dict_get (hgetall h) (PStr k) = PNone"
proof -
  have "map_of (hgetall h) (PStr k) = None"
    by (induction h) (auto simp: hgetall_def)
  then show ?thesis by (simp add: dict_get_def)
qed

lemma parse_min_error:
  "parse_min a = Inl e \<Longrightarrow> e = ReplyError ''ERR min or max is not a float''"
  by (cases a) (auto split: if_splits)

lemma run_script_error:
  "run_script sc ks as r = Inl e \<Longrightarrow>
   e = ReplyError ''ERR Error running script'' \<or> e = ReplyError ''ERR min or max is not a float''"
  by (cases sc) (auto split: if_splits list.splits sum.splits dest: parse_min_error)

lemma eval_prod_eq:
  "eval_prod sc ks as S =
     (run_script sc ks as (production_redis S),
      S\<lparr>production_redis :=
          (if sc \<in> set (script_cache (production_redis S)) then production_redis S
           else (production_redis S)\<lparr>script_cache := sc # script_cache (production_redis S)\<rparr>),
        trace := trace S @ Production (Script (Evalsha (Sha1 sc) ks as)) #
          (if sc \<in> set (script_cache (production_redis S)) then []
           else [Production (Script (Eval sc ks as))])\<rparr>)"
proof (cases "sc \<in> set (script_cache (production_redis S))")
  case False
  then show ?thesis
    by (simp add: eval_prod_def eval_production_redis_def redis_eval_def)
next
  case True
  show ?thesis
  proof (cases "run_script sc ks as (production_redis S)")
    case (Inr res)
    with True show ?thesis
      by (simp add: eval_prod_def eval_production_redis_def)
  next
    case (Inl e)
    from run_script_error [OF Inl] Inl True show ?thesis
      by (auto simp: eval_prod_def eval_production_redis_def)
  qed
qed

lemma execute_cases:
  "execute tx S = (Some TypeError, S)
   \<or> (\<exists>r. exec_all tx (ro_redis S) = Some r
        \<and> execute tx S = (None, S\<lparr>ro_redis := r, trace := trace S @ [ReadOnly (MultiExec tx)]\<rparr>))"
  by (simp add: execute_def split: option.splits)


lemma convert_withscores:
  "convert_change_id_list (withscores zs) =
     (if \<forall>(m, s)\<in>set zs. is_integral s
      then Inr (concat (map (\<lambda>(m, s). [PInt \<lfloor>s\<rfloor>, PBytes m]) zs))
      else Inl ValueError)"
proof (induction zs)
  case Nil
  then show ?case by (simp add: withscores_def)
next
  case (Cons p zs)
  obtain m s where p: "p = (m, s)" by (cases p)
  have w: "withscores ((m, s) # zs) = PBytes m # PScoreText s # withscores zs"
    by (simp add: withscores_def)
  show ?case
    unfolding p w using Cons.IH by (auto split: sum.splits)
qed

lemma split_partial:
  "split_partial_full_data (concat (map (\<lambda>(m, s). [PBytes m, hget h m]) zs)) =
     Inr (concat (map (\<lambda>(m, s). [PBytes m, hget h m]) (filter (\<lambda>(m, s). truthy (hget h m)) zs)),
          map (\<lambda>(m, s). PBytes m) (filter (\<lambda>(m, s). \<not> truthy (hget h m)) zs))"
  by (induction zs) auto

lemma truthy_hget:
  "truthy (hget h m) \<longleftrightarrow> (\<exists>v. map_of h m = Some v \<and> v \<noteq> [])"
  by (auto simp: hget_def split: option.splits)

lemma hmset_partial:
  "\<forall>(m, s)\<in>set zs. truthy (hget h m) \<Longrightarrow>
   hmset (concat (map (\<lambda>(m, s). [PBytes m, hget h m]) zs)) d =
     Some (fold (\<lambda>(m, s). AList.update m (the (map_of h m))) zs d)"
proof (induction zs arbitrary: d)
  case Nil
  then show ?case by simp
next
  case (Cons p zs)
  obtain m s where p: "p = (m, s)" by (cases p)
  from Cons.prems p obtain v where v: "map_of h m = Some v"
    by (auto simp: truthy_hget)
  then have "hget h m = PBytes v" by (simp add: hget_def)
  with Cons v p show ?case by simp
qed


lemma hdel_members:
  "hdel (map (\<lambda>(m, s). PBytes m) zs) d = Some (fold (\<lambda>(m, s). AList.delete m) zs d)"
  by (induction zs arbitrary: d) auto

lemma zadd_converted:
  "zadd (concat (map (\<lambda>(m, s). [PInt \<lfloor>s\<rfloor>, PBytes m]) zs)) z =
     Some (fold (\<lambda>(m, s). AList.update m (of_int \<lfloor>s\<rfloor>)) zs z)"
  by (induction zs arbitrary: z) auto

lemma fold_update_integral:
  "\<forall>(m, s)\<in>set zs. is_integral s \<Longrightarrow>
   fold (\<lambda>(m, s). AList.update m (of_int \<lfloor>s\<rfloor>)) zs z = fold (\<lambda>(m, s). AList.update m s) zs z"
  by (induction zs arbitrary: z) (auto simp: is_integral_def)




lemma set_zrangebyscore [simp]:
  "set (zrangebyscore lo z) =
     {(m, s). (m, s) \<in> set z \<and> (case lo of None \<Rightarrow> True | Some l \<Rightarrow> l \<le> s)}"
  by (auto simp: zrangebyscore_def)


lemma flat_Nil [simp]:
  "concat (map (\<lambda>(m, s). [f m s, g m s]) zs) = [] \<longleftrightarrow> zs = []"
  by (cases zs) auto

lemma exec_partial_tx:
  "exec_all ((if cs \<noteq> [] then [Hmset full_data_key cs] else [])
             @ (if ds \<noteq> [] then [Hdel full_data_key ds] else [])
             @ (if zs \<noteq> [] then [Zadd change_id_key zs] else [])) r =
   (case hmset cs (full_data r) of
      None \<Rightarrow> None
    | Some h1 \<Rightarrow>
        (case hdel ds h1 of
           None \<Rightarrow> None
         | Some h2 \<Rightarrow>
             (case zadd zs (change_id r) of
                None \<Rightarrow> None
              | Some z \<Rightarrow> Some (r\<lparr>full_data := h2, change_id := z\<rparr>))))"
  by (auto split: option.splits)


lemma hmset_changed:
  "hmset (concat (map (\<lambda>(m, s). [PBytes m, hget h m]) (filter (\<lambda>(m, s). truthy (hget h m)) zs))) d =
     Some (fold (\<lambda>(m, s). AList.update m (the (map_of h m))) (filter (\<lambda>(m, s). truthy (hget h m)) zs) d)"
  by (rule hmset_partial) auto


lemma eval_prod_frame [simp]:
  "ro_redis (snd (eval_prod sc ks as S)) = ro_redis S"
  "full_data (production_redis (snd (eval_prod sc ks as S))) = full_data (production_redis S)"
  "change_id (production_redis (snd (eval_prod sc ks as S))) = change_id (production_redis S)"
  "schema (production_redis (snd (eval_prod sc ks as S))) = schema (production_redis S)"
  "production_marker (production_redis (snd (eval_prod sc ks as S))) = production_marker (production_redis S)"
  "change_id_ro (snd (eval_prod sc ks as S)) = change_id_ro S"
  "fst (eval_prod sc ks as S) = run_script sc ks as (production_redis S)"
  by (simp_all add: eval_prod_eq)

lemma do_partial_update_reply_error:
  assumes "parse_min (fetch_floor (change_id_ro S)) = Inl e"
  shows "do_partial_update S =
     (Some e, snd (eval_prod PartialUpdateScript [full_data_key, change_id_key]
                     [fetch_floor (change_id_ro S)] S))"
  using assms by (simp add: do_partial_update_def eval_prod_eq)

lemma eval_prod_partial:
  assumes "parse_min (fetch_floor (change_id_ro S)) = Inr lo"
    and "S1 = snd (eval_prod PartialUpdateScript [full_data_key, change_id_key]
                     [fetch_floor (change_id_ro S)] S)"
  shows "eval_prod PartialUpdateScript [full_data_key, change_id_key]
           [fetch_floor (change_id_ro S)] S =
         (Inr [concat (map (\<lambda>(m, s). [PBytes m, hget (full_data (production_redis S)) m])
                 (zrangebyscore lo (change_id (production_redis S)))),
               withscores (zrangebyscore lo (change_id (production_redis S)))], S1)"
  using assms by (simp add: prod_eq_iff run_partial_script_def Let_def del: set_zrangebyscore)

lemma do_partial_update_value_error:
  assumes "parse_min (fetch_floor (change_id_ro S)) = Inr lo"
    and "\<not> (\<forall>(m, s)\<in>set (zrangebyscore lo (change_id (production_redis S))). is_integral s)"
  shows "do_partial_update S =
     (Some ValueError, snd (eval_prod PartialUpdateScript [full_data_key, change_id_key]
                     [fetch_floor (change_id_ro S)] S))"
proof -
  define S1 where "S1 = snd (eval_prod PartialUpdateScript [full_data_key, change_id_key]
                     [fetch_floor (change_id_ro S)] S)"
  note e = eval_prod_partial [OF assms(1) S1_def]
  have c: "convert_change_id_list (withscores (zrangebyscore lo (change_id (production_redis S))))
      = Inl ValueError"
    using assms(2) by (simp only: convert_withscores if_False)
  show ?thesis
    unfolding do_partial_update_def e S1_def [symmetric] by (simp add: c)
qed

lemma do_partial_update_nothing:
  assumes "parse_min (fetch_floor (change_id_ro S)) = Inr lo"
    and "zrangebyscore lo (change_id (production_redis S)) = []"
  shows "do_partial_update S =
     (None, snd (eval_prod PartialUpdateScript [full_data_key, change_id_key]
                     [fetch_floor (change_id_ro S)] S))"
proof -
  define S1 where "S1 = snd (eval_prod PartialUpdateScript [full_data_key, change_id_key]
                     [fetch_floor (change_id_ro S)] S)"
  note e = eval_prod_partial [OF assms(1) S1_def]
  show ?thesis
    unfolding do_partial_update_def e S1_def [symmetric] assms(2)
    by (simp add: withscores_def)
qed

lemma do_partial_update_applied:
  assumes "parse_min (fetch_floor (change_id_ro S)) = Inr lo"
    and "\<forall>(m, s)\<in>set (zrangebyscore lo (change_id (production_redis S))). is_integral s"
    and "zrangebyscore lo (change_id (production_redis S)) \<noteq> []"
  shows "\<exists>tx. (\<forall>c\<in>set tx. \<forall>v\<in>set (cmd_args c). (\<exists>b. v = PBytes b) \<or> (\<exists>i. v = PInt i))
     \<and> do_partial_update S =
     (None, (snd (eval_prod PartialUpdateScript [full_data_key, change_id_key]
                     [fetch_floor (change_id_ro S)] S))
        \<lparr>ro_redis := (ro_redis S)
           \<lparr>full_data :=
              fold (\<lambda>(m, s). AList.delete m)
                (filter (\<lambda>(m, s). \<not> truthy (hget (full_data (production_redis S)) m))
                   (zrangebyscore lo (change_id (production_redis S))))
                (fold (\<lambda>(m, s). AList.update m (the (map_of (full_data (production_redis S)) m)))
                   (filter (\<lambda>(m, s). truthy (hget (full_data (production_redis S)) m))
                      (zrangebyscore lo (change_id (production_redis S))))
                   (full_data (ro_redis S))),
            change_id :=
              fold (\<lambda>(m, s). AList.update m s)
                (zrangebyscore lo (change_id (production_redis S))) (change_id (ro_redis S))\<rparr>,
         trace := trace (snd (eval_prod PartialUpdateScript [full_data_key, change_id_key]
                     [fetch_floor (change_id_ro S)] S)) @ [ReadOnly (MultiExec tx)]\<rparr>)"
proof -
  define S1 where "S1 = snd (eval_prod PartialUpdateScript [full_data_key, change_id_key]
                     [fetch_floor (change_id_ro S)] S)"
  define h where "h = full_data (production_redis S)"
  define change where "change = zrangebyscore lo (change_id (production_redis S))"
  define conv where "conv = concat (map (\<lambda>(m, s). [PInt \<lfloor>s\<rfloor>, PBytes m]) change)"
  define chg where "chg = filter (\<lambda>(m, s). truthy (hget h m)) change"
  define del where "del = filter (\<lambda>(m, s). \<not> truthy (hget h m)) change"
  define cs where "cs = concat (map (\<lambda>(m, s). [PBytes m, hget h m]) chg)"
  define ds where "ds = map (\<lambda>(m, s). PBytes m) del"
  define tx where "tx = (if cs \<noteq> [] then [Hmset full_data_key cs] else [])
             @ (if ds \<noteq> [] then [Hdel full_data_key ds] else [])
             @ (if conv \<noteq> [] then [Zadd change_id_key conv] else [])"
  have ro: "ro_redis S1 = ro_redis S" by (simp add: S1_def)
  note e = eval_prod_partial [OF assms(1) S1_def, folded h_def change_def]
  have c: "convert_change_id_list (withscores change) = Inr conv"
    using assms(2) unfolding change_def [symmetric] conv_def
    by (simp add: convert_withscores)
  have sp: "split_partial_full_data (concat (map (\<lambda>(m, s). [PBytes m, hget h m]) change))
      = Inr (cs, ds)"
    unfolding cs_def ds_def chg_def del_def by (rule split_partial)
  have ne: "conv \<noteq> []"
    using assms(3) unfolding change_def [symmetric] conv_def by (cases change) auto
  have hm: "hmset cs (full_data (ro_redis S)) =
      Some (fold (\<lambda>(m, s). AList.update m (the (map_of h m))) chg (full_data (ro_redis S)))"
    unfolding cs_def chg_def by (rule hmset_changed)
  have hd: "hdel ds d = Some (fold (\<lambda>(m, s). AList.delete m) del d)" for d
    unfolding ds_def by (rule hdel_members)
  have za: "zadd conv (change_id (ro_redis S)) =
      Some (fold (\<lambda>(m, s). AList.update m s) change (change_id (ro_redis S)))"
    using assms(2) unfolding change_def [symmetric] conv_def
    by (simp add: zadd_converted fold_update_integral)
  have ex: "exec_all tx (ro_redis S1) =
      Some ((ro_redis S)\<lparr>full_data := fold (\<lambda>(m, s). AList.delete m) del
                 (fold (\<lambda>(m, s). AList.update m (the (map_of h m))) chg (full_data (ro_redis S))),
               change_id := fold (\<lambda>(m, s). AList.update m s) change (change_id (ro_redis S))\<rparr>)"
    unfolding tx_def exec_partial_tx ro by (simp add: hm hd za)
  have "do_partial_update S = execute tx S1"
    unfolding do_partial_update_def e by (simp add: c sp ne tx_def)
  then have "do_partial_update S =
      (None, S1\<lparr>ro_redis := (ro_redis S)\<lparr>full_data := fold (\<lambda>(m, s). AList.delete m) del
                 (fold (\<lambda>(m, s). AList.update m (the (map_of h m))) chg (full_data (ro_redis S))),
               change_id := fold (\<lambda>(m, s). AList.update m s) change (change_id (ro_redis S))\<rparr>,
             trace := trace S1 @ [ReadOnly (MultiExec tx)]\<rparr>)"
    by (simp add: execute_def ex)
  moreover have "\<forall>c\<in>set tx. \<forall>v\<in>set (cmd_args c). (\<exists>b. v = PBytes b) \<or> (\<exists>i. v = PInt i)"
  proof -
    have "\<exists>b. hget h m = PBytes b" if "truthy (hget h m)" for m
      using that by (auto simp: hget_def split: option.splits)
    then have 1: "\<forall>v\<in>set cs. (\<exists>b. v = PBytes b) \<or> (\<exists>i. v = PInt i)"
      unfolding cs_def chg_def by auto
    have 2: "\<forall>v\<in>set ds. (\<exists>b. v = PBytes b) \<or> (\<exists>i. v = PInt i)"
      unfolding ds_def by auto
    have 3: "\<forall>v\<in>set conv. (\<exists>b. v = PBytes b) \<or> (\<exists>i. v = PInt i)"
      unfolding conv_def by auto
    show ?thesis
      unfolding tx_def using 1 2 3 by (auto split: if_splits)
  qed
  ultimately show ?thesis
    unfolding S1_def h_def change_def chg_def del_def by blast
qed

section \<open>The procedure cache\<close>

text \<open>
  C7. \<^verbatim>\<open>eval_production_redis\<close> first calls the cached script by the digest of the body.
  Exactly when that call fails with a reply error whose message starts with
  \<^verbatim>\<open>NOSCRIPT\<close>, it sends the body once and returns whatever that second call returns;
  in every other case the outcome of the first call, a result or an exception, is
  handed to the caller as it is. This holds for every behaviour of the store.
\<close>

theorem eval_production_redis_fallback:
  assumes "evalsha (sha1 script) keys args s = (r, s1)"
  shows "eval_production_redis sha1 evalsha eval script keys args s =
     (if (\<exists>msg. r = Inl (ReplyError msg) \<and> prefix ''NOSCRIPT'' msg)
      then (fst (eval script keys args s1), snd (eval script keys args s1),
            [Evalsha (sha1 script) keys args, Eval script keys args])
      else (r, s1, [Evalsha (sha1 script) keys args]))"
  using assms
  by (auto simp: eval_production_redis_def Let_def split: sum.splits exn.splits prod.splits)

theorem eval_production_redis_fallback_witness:
  "redis_evalsha (Sha1 FullUpdateScript) [full_data_key, change_id_key, schema_key] [] prod_store
     = (Inl (ReplyError ''NOSCRIPT No matching script. Please use EVAL.''), prod_store)
   \<and> eval_production_redis Sha1 redis_evalsha redis_eval FullUpdateScript
        [full_data_key, change_id_key, schema_key] [] prod_store
     = (Inr [[PBytes ''a'', PBytes ''x'', PBytes ''b'', PBytes ''y''],
             [PBytes ''_config:lowest_change_id'', PScoreText 1, PBytes ''a'', PScoreText 2,
              PBytes ''b'', PScoreText 3, PBytes ''c'', PScoreText 4],
             [PBytes ''db'', PBytes ''2'', PBytes ''config'', PBytes ''1'',
              PBytes ''migration'', PBytes ''1'']],
        prod_store\<lparr>script_cache := [FullUpdateScript]\<rparr>,
        [Evalsha (Sha1 FullUpdateScript) [full_data_key, change_id_key, schema_key] [],
         Eval FullUpdateScript [full_data_key, change_id_key, schema_key] []])"
proof -
  have h: "redis_evalsha (Sha1 FullUpdateScript) [full_data_key, change_id_key, schema_key] []
      prod_store
     = (Inl (ReplyError ''NOSCRIPT No matching script. Please use EVAL.''), prod_store)"
    by (simp add: prod_store_def)
  show ?thesis
    using eval_production_redis_fallback [of redis_evalsha Sha1, OF h, of redis_eval]
    by (simp add: h redis_eval_def run_full_script_def hgetall_flat_def withscores_def
        zrangebyscore_def prod_store_def)
qed

section \<open>Marker verification\<close>

text \<open>
  C6. If the marker key of the production store is absent or holds the empty string, the
  run returns at once without an exception: the only command sent is the \<^verbatim>\<open>GET\<close> of the
  marker, no attribute of the object is assigned (nothing was inspected), and the
  replica is the one the run started with.
\<close>

theorem sync_redis_abort_noop:
  assumes "production_marker (production_redis S) = None
         \<or> production_marker (production_redis S) = Some []"
  shows "sync_redis S = (None, S\<lparr>trace := trace S @ [Production (Get production_marker_key)]\<rparr>)
       \<and> ro_redis (snd (sync_redis S)) = ro_redis S"
proof -
  have "\<not> truthy (redis_get (production_redis S))"
    using assms by (auto simp: truthy_marker)
  then show ?thesis by (simp add: sync_redis_unmarked)
qed

theorem sync_redis_abort_noop_witness:
  "sync_redis (Synchronizer (prod_store\<lparr>production_marker := None\<rparr>) ro_behind) =
     (None, (Synchronizer (prod_store\<lparr>production_marker := None\<rparr>) ro_behind)
              \<lparr>trace := [Production (Get production_marker_key)]\<rparr>)
   \<and> ro_redis (snd (sync_redis (Synchronizer (prod_store\<lparr>production_marker := None\<rparr>) ro_behind)))
       = ro_behind"
  using sync_redis_abort_noop [of "Synchronizer (prod_store\<lparr>production_marker := None\<rparr>) ro_behind"]
  by (simp add: Synchronizer_def)

text \<open>
  C10. Only the truthiness of the fetched marker value is tested. The run goes on to
  inspect the replica exactly when the key holds a non-empty value, whatever it is, and
  it stops after the \<^verbatim>\<open>GET\<close> exactly when the key is absent or holds the empty string.
\<close>

theorem marker_truthiness:
  "((\<exists>rest. trace (snd (sync_redis S)) =
        trace S @ [Production (Get production_marker_key),
                   ReadOnly (Zrevrangebyscore change_id_key)] @ rest)
    \<longleftrightarrow> (\<exists>v. production_marker (production_redis S) = Some v \<and> v \<noteq> []))
   \<and> (sync_redis S = (None, S\<lparr>trace := trace S @ [Production (Get production_marker_key)]\<rparr>)
    \<longleftrightarrow> (production_marker (production_redis S) = None
         \<or> production_marker (production_redis S) = Some []))"
proof (cases "truthy (redis_get (production_redis S))")
  case False
  then have "production_marker (production_redis S) = None
         \<or> production_marker (production_redis S) = Some []"
    by (auto simp: redis_get_def split: option.splits)
  then show ?thesis using sync_redis_unmarked [OF False] by auto
next
  case True
  then have m: "\<exists>v. production_marker (production_redis S) = Some v \<and> v \<noteq> []"
    by (simp add: truthy_marker)
  from sync_redis_marked [OF True] obtain rest where
    r: "trace (snd (sync_redis S)) =
        trace S @ [Production (Get production_marker_key),
                   ReadOnly (Zrevrangebyscore change_id_key)] @ rest"
    by blast
  then have "sync_redis S \<noteq> (None, S\<lparr>trace := trace S @ [Production (Get production_marker_key)]\<rparr>)"
    by auto
  with m r show ?thesis by auto
qed

theorem marker_truthiness_witness:
  "production_marker (prod_store\<lparr>production_marker := Some ''0''\<rparr>) = Some ''0''
   \<and> take 2 (trace (snd (sync_redis (Synchronizer (prod_store\<lparr>production_marker := Some ''0''\<rparr>) ro_behind))))
       = [Production (Get production_marker_key), ReadOnly (Zrevrangebyscore change_id_key)]"
  using marker_truthiness [of "Synchronizer (prod_store\<lparr>production_marker := Some ''0''\<rparr>) ro_behind"]
  by (auto simp: Synchronizer_def)

section \<open>The decision\<close>

text \<open>
  C1. The decision is meant to be a full update when one of the schema fields \<^verbatim>\<open>db\<close>,
  \<^verbatim>\<open>config\<close>, \<^verbatim>\<open>migration\<close> differs between the replica and the production store (step 3
  of \<^verbatim>\<open>sync_redis\<close> says so). The dictionaries that \<^verbatim>\<open>hgetall\<close> returns are keyed by byte
  strings, as \<^verbatim>\<open>fetch_ro_redis_data\<close> itself assumes when it decodes the keys, while
  \<^verbatim>\<open>check_full_update\<close> looks the fields up with \<^verbatim>\<open>str\<close> keys: every lookup yields \<^verbatim>\<open>None\<close>
  and the comparison never fires. Whenever both lowest change ids are defined and equal,
  the decision is the partial update, whatever the two schema hashes hold; in the example
  the \<^verbatim>\<open>db\<close> versions differ.
\<close>

theorem schema_difference_not_detected:
  assumes "schema_ro S = hgetall h" and "schema_production S = hgetall h'"
    and "lowest_change_id_ro S \<noteq> PNone" and "lowest_change_id_prod S \<noteq> PNone"
    and "py_eq (lowest_change_id_ro S) (lowest_change_id_prod S)"
  shows "\<not> check_full_update S"
  using assms by (simp add: check_full_update_def)

theorem schema_difference_not_detected_witness:
  "hget (schema ro_old_schema) ''db'' = PBytes ''1''
   \<and> hget (schema prod_store) ''db'' = PBytes ''2''
   \<and> lowest_change_id_ro (fetch_production_data (fetch_ro_redis_data
         (Synchronizer prod_store ro_old_schema))) = PInt 1
   \<and> lowest_change_id_prod (fetch_production_data (fetch_ro_redis_data
         (Synchronizer prod_store ro_old_schema))) = PInt 1
   \<and> \<not> check_full_update (fetch_production_data (fetch_ro_redis_data
         (Synchronizer prod_store ro_old_schema)))"
proof -
  let ?S = "fetch_production_data (fetch_ro_redis_data (Synchronizer prod_store ro_old_schema))"
  have 1: "schema_ro ?S = hgetall (schema ro_old_schema)"
    and 2: "schema_production ?S = hgetall (schema prod_store)"
    and 3: "lowest_change_id_ro ?S = PInt 1"
    and 4: "lowest_change_id_prod ?S = PInt 1"
    by (simp_all add: run_defs prod_store_def ro_old_schema_def ro_behind_def)
  have 5: "lowest_change_id_ro ?S \<noteq> PNone" and 6: "lowest_change_id_prod ?S \<noteq> PNone"
    and 7: "py_eq (lowest_change_id_ro ?S) (lowest_change_id_prod ?S)"
    unfolding 3 4 by simp_all
  have "\<not> check_full_update ?S"
    by (rule schema_difference_not_detected [OF 1 2 5 6 7])
  then show ?thesis
    using 3 4 by (simp add: hget_def prod_store_def ro_old_schema_def ro_behind_def)
qed

section \<open>The fetch floor\<close>

lemma do_partial_update_trace:
  "\<exists>w. trace (snd (do_partial_update S)) =
        trace (snd (eval_prod PartialUpdateScript [full_data_key, change_id_key]
                     [fetch_floor (change_id_ro S)] S)) @ w
      \<and> (w = [] \<or> (\<exists>tx. w = [ReadOnly (MultiExec tx)]
            \<and> (\<forall>c\<in>set tx. \<forall>v\<in>set (cmd_args c). (\<exists>b. v = PBytes b) \<or> (\<exists>i. v = PInt i))))"
proof (cases "parse_min (fetch_floor (change_id_ro S))")
  case (Inl e)
  then show ?thesis by (simp add: do_partial_update_reply_error del: eval_prod_frame)
next
  case (Inr lo)
  let ?change = "zrangebyscore lo (change_id (production_redis S))"
  consider "\<not> (\<forall>(m, s)\<in>set ?change. is_integral s)"
    | "?change = []"
    | "\<forall>(m, s)\<in>set ?change. is_integral s" "?change \<noteq> []"
    by blast
  then show ?thesis
  proof cases
    case 1
    show ?thesis by (simp only: do_partial_update_value_error [OF Inr 1]) simp
  next
    case 2
    show ?thesis by (simp only: do_partial_update_nothing [OF Inr 2]) simp
  next
    case 3
    from do_partial_update_applied [OF Inr 3] obtain tx where
      "\<forall>c\<in>set tx. \<forall>v\<in>set (cmd_args c). (\<exists>b. v = PBytes b) \<or> (\<exists>i. v = PInt i)"
      "trace (snd (do_partial_update S)) =
        trace (snd (eval_prod PartialUpdateScript [full_data_key, change_id_key]
                     [fetch_floor (change_id_ro S)] S)) @ [ReadOnly (MultiExec tx)]"
      by auto
    then show ?thesis by blast
  qed
qed




section \<open>Where the decision gets the production values\<close>






section \<open>The cursor on the incremental path\<close>

lemma zrevrangebyscore_empty [simp]: "zrevrangebyscore [] = []"
  by simp

lemma zrevrangebyscore_cases:
  "zrevrangebyscore z = [] \<and> z = []
   \<or> (\<exists>m s. (m, s) \<in> set z \<and> zrevrangebyscore z = [(PBytes m, int_or_float s)]
        \<and> (\<forall>(m', s')\<in>set z. s' \<le> s))"
proof (cases "rev (zrangebyscore None z)")
  case Nil
  then have "z = []" by simp
  then show ?thesis by simp
next
  case (Cons p rest)
  obtain m s where p: "p = (m, s)" by (cases p)
  from Cons p have ys: "zrangebyscore None z = rev rest @ [(m, s)]"
    by (simp add: rev_eq_Cons_iff del: set_zrangebyscore)
  have "sorted (map (\<lambda>(m, s). (s, m)) (zrangebyscore None z))"
    unfolding zrangebyscore_def by (rule sorted_sort_key)
  then have "\<forall>x\<in>set (rev rest). (\<lambda>(m, s). (s, m)) x \<le> (s, m)"
    unfolding ys by (auto simp: sorted_append)
  then have le: "\<forall>(m', s')\<in>set (rev rest @ [(m, s)]). s' \<le> s"
    by (auto simp: less_eq_prod_def)
  have set: "set (rev rest @ [(m, s)]) = set z"
    unfolding ys [symmetric] by simp
  have z: "zrevrangebyscore z = [(PBytes m, int_or_float s)]"
    unfolding zrevrangebyscore_def using Cons p by (simp del: set_zrangebyscore)
  from set have "(m, s) \<in> set z" by auto
  with le z show ?thesis unfolding set by blast
qed

lemma cursor_numeric:
  assumes "change_id (ro_redis S) \<noteq> []"
  shows "(\<exists>i. change_id_ro (fetch_ro_redis_data S) = PInt i)
       \<or> (\<exists>q. change_id_ro (fetch_ro_redis_data S) = PFloat q)"
proof -
  from zrevrangebyscore_cases [of "change_id (ro_redis S)"] assms obtain m s where
    "zrevrangebyscore (change_id (ro_redis S)) = [(PBytes m, int_or_float s)]"
    by auto
  then show ?thesis
    by (simp add: fetch_ro_redis_data_def Let_def int_or_float_def)
qed

lemma empty_change_log_no_floor:
  assumes "change_id (ro_redis S) = []"
  shows "lowest_change_id_ro (fetch_ro_redis_data S) = PNone"
    and "change_id_ro (fetch_ro_redis_data S) = PStr ''-inf''"
  using assms by (simp_all add: fetch_ro_redis_data_def Let_def)


lemma fetch_floor_numeric:
  "(\<exists>i. c = PInt i) \<or> (\<exists>q. c = PFloat q) \<Longrightarrow>
   (\<exists>i. fetch_floor c = PInt i) \<or> (\<exists>q. fetch_floor c = PFloat q)"
  by (auto simp: fetch_floor_def)

text \<open>
  C9. An empty change log on the replica leaves its lowest change id undefined, and then
  the decision is the full update. So when the decision is the partial update, the
  change log was not empty, the cursor is a number (an \<^verbatim>\<open>int\<close> or a \<^verbatim>\<open>float\<close>) and not the
  string \<^verbatim>\<open>"-inf"\<close>, and no command that \<^verbatim>\<open>do_partial_update\<close> sends, to the production
  store or to the replica, carries that string.
\<close>

theorem incremental_cursor_is_numeric:
  "(change_id (ro_redis S) = [] \<longrightarrow>
      lowest_change_id_ro (fetch_production_data (fetch_ro_redis_data S)) = PNone
      \<and> check_full_update (fetch_production_data (fetch_ro_redis_data S)))
   \<and> (\<not> check_full_update (fetch_production_data (fetch_ro_redis_data S)) \<longrightarrow>
        change_id (ro_redis S) \<noteq> []
      \<and> ((\<exists>i. change_id_ro (fetch_production_data (fetch_ro_redis_data S)) = PInt i)
         \<or> (\<exists>q. change_id_ro (fetch_production_data (fetch_ro_redis_data S)) = PFloat q))
      \<and> (\<forall>e\<in>set (drop (length (trace (fetch_production_data (fetch_ro_redis_data S))))
                    (trace (snd (do_partial_update
                       (fetch_production_data (fetch_ro_redis_data S)))))).
            PStr ''-inf'' \<notin> set (event_args e)))"
proof -
  let ?S2 = "fetch_production_data (fetch_ro_redis_data S)"
  have a: "lowest_change_id_ro ?S2 = PNone \<and> check_full_update ?S2"
    if "change_id (ro_redis S) = []"
    using empty_change_log_no_floor(1) [OF that] by (simp add: check_full_update_def)
  have b: "change_id (ro_redis S) \<noteq> []
      \<and> ((\<exists>i. change_id_ro ?S2 = PInt i) \<or> (\<exists>q. change_id_ro ?S2 = PFloat q))
      \<and> (\<forall>e\<in>set (drop (length (trace ?S2)) (trace (snd (do_partial_update ?S2)))).
            PStr ''-inf'' \<notin> set (event_args e))"
    if d: "\<not> check_full_update ?S2"
  proof -
    from a d have ne: "change_id (ro_redis S) \<noteq> []" by blast
    from cursor_numeric [OF ne]
    have num: "(\<exists>i. change_id_ro ?S2 = PInt i) \<or> (\<exists>q. change_id_ro ?S2 = PFloat q)"
      by simp
    from fetch_floor_numeric [OF num]
    have fl: "fetch_floor (change_id_ro ?S2) \<noteq> PStr ''-inf''" by auto
    from do_partial_update_trace [of ?S2] obtain w where
      w: "trace (snd (do_partial_update ?S2)) =
        trace (snd (eval_prod PartialUpdateScript [full_data_key, change_id_key]
                     [fetch_floor (change_id_ro ?S2)] ?S2)) @ w"
      and w': "w = [] \<or> (\<exists>tx. w = [ReadOnly (MultiExec tx)]
            \<and> (\<forall>c\<in>set tx. \<forall>v\<in>set (cmd_args c). (\<exists>b. v = PBytes b) \<or> (\<exists>i. v = PInt i)))"
      by blast
    have "\<forall>e\<in>set w. PStr ''-inf'' \<notin> set (event_args e)"
      using w' by fastforce
    then have "\<forall>e\<in>set (drop (length (trace ?S2)) (trace (snd (do_partial_update ?S2)))).
            PStr ''-inf'' \<notin> set (event_args e)"
      unfolding w using fl by (auto simp: eval_prod_eq)
    with ne num show ?thesis by blast
  qed
  from a b show ?thesis by blast
qed


theorem incremental_cursor_is_numeric_witness:
  "\<not> check_full_update (fetch_production_data (fetch_ro_redis_data
        (Synchronizer prod_store ro_behind)))
   \<and> change_id_ro (fetch_production_data (fetch_ro_redis_data
        (Synchronizer prod_store ro_behind))) = PInt 2
   \<and> list_all (\<lambda>e. PStr ''-inf'' \<notin> set (event_args e))
         (drop (length (trace (fetch_production_data (fetch_ro_redis_data
                       (Synchronizer prod_store ro_behind)))))
                 (trace (snd (do_partial_update (fetch_production_data (fetch_ro_redis_data
                       (Synchronizer prod_store ro_behind)))))))
   \<and> check_full_update (fetch_production_data (fetch_ro_redis_data
        (Synchronizer prod_store ro_empty)))"
proof -
  have d: "\<not> check_full_update (fetch_production_data (fetch_ro_redis_data
        (Synchronizer prod_store ro_behind)))"
    by (simp add: run_defs prod_store_def ro_behind_def)
  have c: "change_id_ro (fetch_production_data (fetch_ro_redis_data
        (Synchronizer prod_store ro_behind))) = PInt 2"
    by (simp add: run_defs prod_store_def ro_behind_def)
  have e: "change_id (ro_redis (Synchronizer prod_store ro_empty)) = []"
    by (simp add: Synchronizer_def ro_empty_def)
  show ?thesis
    unfolding list_all_iff
    using d c e incremental_cursor_is_numeric [of "Synchronizer prod_store ro_behind"]
      incremental_cursor_is_numeric [of "Synchronizer prod_store ro_empty"]
    by blast
qed

section \<open>The partial update\<close>







section \<open>The full update\<close>

lemma hgetall_flat_Nil [simp]: "hgetall_flat h = [] \<longleftrightarrow> h = []"
  by (cases h) (auto simp: hgetall_flat_def)

lemma eval_prod_full:
  assumes "S1 = snd (eval_prod FullUpdateScript [full_data_key, change_id_key, schema_key] [] S)"
  shows "eval_prod FullUpdateScript [full_data_key, change_id_key, schema_key] [] S =
         (Inr [hgetall_flat (full_data (production_redis S)),
               withscores (zrangebyscore None (change_id (production_redis S))),
               hgetall_flat (schema (production_redis S))], S1)"
  using assms by (simp add: prod_eq_iff run_full_script_def del: set_zrangebyscore)

lemma do_full_update_value_error:
  assumes "\<not> (\<forall>(m, s)\<in>set (change_id (production_redis S)). is_integral s)"
  shows "do_full_update S =
     (Some ValueError,
      snd (eval_prod FullUpdateScript [full_data_key, change_id_key, schema_key] [] S))"
proof -
  define S1 where
    "S1 = snd (eval_prod FullUpdateScript [full_data_key, change_id_key, schema_key] [] S)"
  note e = eval_prod_full [OF S1_def]
  have c: "convert_change_id_list (withscores (zrangebyscore None (change_id (production_redis S))))
      = Inl ValueError"
    using assms by (simp add: convert_withscores)
  show ?thesis
    unfolding do_full_update_def e S1_def [symmetric] by (simp add: c)
qed





section \<open>Running the partial update twice\<close>











end
